theory Spec2Isabelle
  imports Main "HOL-Library.Sublist"
begin

section \<open>Values, errors and the external collaborators\<close>

text \<open>
  The configuration document is what \<^verbatim>\<open>yaml.safe_load\<close> returns: nested Python values.
  Mappings are association lists in the document's order; their keys are strings (the only
  keys the parser ever asks for) and a lookup takes the first entry of a key. Floats do not
  occur in the model. Python strings are byte strings in UTF-8: the accented letters of the
  Portuguese messages are written out as their two bytes.
\<close>

datatype pyval =
    PNone
  | PBool bool
  | PInt int
  | PStr string
  | PList "pyval list"
  | PDict "(string \<times> pyval) list"

text \<open>The exceptions that the modelled code raises or lets through.\<close>

datatype py_error =
    ValueError string
  | SyntaxError
  | KeyError string
  | TypeError
  | AttributeError
  | UnboundLocalError
  | HTTPError nat

text \<open>
  A computation that may raise returns \<open>py_error + 'a\<close>, \<open>Inl\<close> carrying the exception.
  \<open>and_then\<close> runs the next statement unless the previous one raised.
\<close>

definition and_then :: "py_error + 'a \<Rightarrow> ('a \<Rightarrow> py_error + 'b) \<Rightarrow> py_error + 'b" where
  "and_then r f = (case r of Inl e \<Rightarrow> Inl e | Inr x \<Rightarrow> f x)"

text \<open>
  Library and service calls made by the code, taken as parameters:
  \<^item> \<open>Variable_get\<close>: \<^verbatim>\<open>airflow.models.Variable.get\<close>, which may raise;
  \<^item> \<open>literal_eval\<close>: \<^verbatim>\<open>ast.literal_eval\<close>, which returns the value of a literal or raises;
  \<^item> \<open>dedent\<close>, \<open>indent\<close>: \<^verbatim>\<open>textwrap.dedent\<close> and \<^verbatim>\<open>textwrap.indent\<close>;
  \<^item> \<open>markdown\<close>: \<^verbatim>\<open>markdown.markdown\<close>;
  \<^item> \<open>report_style_css\<close>: the text of the file \<^verbatim>\<open>report_style.css\<close>;
  \<^item> \<open>tempfile_name\<close>: the name that \<^verbatim>\<open>NamedTemporaryFile\<close> gives the CSV file;
  \<^item> \<open>post_status\<close>: the status code of the response to \<^verbatim>\<open>requests.post(url, json=data)\<close>.
\<close>

record externals =
  Variable_get :: "pyval \<Rightarrow> py_error + string"
  literal_eval :: "string \<Rightarrow> py_error + pyval"
  dedent :: "string \<Rightarrow> string"
  indent :: "string \<Rightarrow> string \<Rightarrow> string"
  markdown :: "string \<Rightarrow> string"
  report_style_css :: string
  tempfile_name :: string
  post_status :: "string \<Rightarrow> (string \<times> pyval) list \<Rightarrow> nat"

subsection \<open>Python built-ins used by the code\<close>

text \<open>Truth value of a Python object, as \<^verbatim>\<open>if x:\<close> tests it.\<close>

fun truthy :: "pyval \<Rightarrow> bool" where
  "truthy PNone = False"
| "truthy (PBool b) = b"
| "truthy (PInt i) = (i \<noteq> 0)"
| "truthy (PStr s) = (s \<noteq> [])"
| "truthy (PList xs) = (xs \<noteq> [])"
| "truthy (PDict kvs) = (kvs \<noteq> [])"

text \<open>\<^verbatim>\<open>d.get(key, default)\<close>: only a mapping has the method.\<close>

fun py_get :: "pyval \<Rightarrow> string \<Rightarrow> pyval \<Rightarrow> py_error + pyval" where
  "py_get (PDict kvs) key dflt = Inr (case map_of kvs key of Some v \<Rightarrow> v | None \<Rightarrow> dflt)"
| "py_get _ key dflt = Inl AttributeError"

text \<open>\<^verbatim>\<open>d[key]\<close> with a string key: a missing key is a KeyError, any other object a TypeError.\<close>

fun py_subscript :: "pyval \<Rightarrow> string \<Rightarrow> py_error + pyval" where
  "py_subscript (PDict kvs) key =
     (case map_of kvs key of Some v \<Rightarrow> Inr v | None \<Rightarrow> Inl (KeyError key))"
| "py_subscript _ key = Inl TypeError"

text \<open>\<^verbatim>\<open>s.split(sep)\<close> for a one-character separator; the result is never empty.\<close>

fun split_on :: "char \<Rightarrow> string \<Rightarrow> string list" where
  "split_on sep [] = [[]]"
| "split_on sep (c # cs) =
     (if c = sep then [] # split_on sep cs
      else (case split_on sep cs of w # ws \<Rightarrow> (c # w) # ws | [] \<Rightarrow> [[c]]))"

text \<open>\<^verbatim>\<open>sep.join(xs)\<close> on a list of strings.\<close>

fun join :: "string \<Rightarrow> string list \<Rightarrow> string" where
  "join sep [] = []"
| "join sep [x] = x"
| "join sep (x # y # ys) = x @ sep @ join sep (y # ys)"

text \<open>
  \<^verbatim>\<open>s.splitlines()\<close>: the line ends are LF, CR, CR LF, VT, FF, FS, GS, RS, and NEL, LS, PS
  in their UTF-8 encodings; the ends are dropped and a final end opens no further line.
  The first argument is the current line, reversed.
\<close>

fun splitlines_from :: "string \<Rightarrow> string \<Rightarrow> string list" where
  "splitlines_from cur [] = (if cur = [] then [] else [rev cur])"
| "splitlines_from cur (c # cs) =
     (if c = CHR 0x0D then
        (case cs of
           [] \<Rightarrow> [rev cur]
         | d # ds \<Rightarrow> if d = CHR 0x0A then rev cur # splitlines_from [] ds
                    else rev cur # splitlines_from [] cs)
      else if c \<in> {CHR 0x0A, CHR 0x0B, CHR 0x0C, CHR 0x1C, CHR 0x1D, CHR 0x1E} then
        rev cur # splitlines_from [] cs
      else if c = CHR 0xC2 then
        (case cs of
           [] \<Rightarrow> [rev (c # cur)]
         | d # ds \<Rightarrow> if d = CHR 0x85 then rev cur # splitlines_from [] ds
                    else splitlines_from (c # cur) cs)
      else if c = CHR 0xE2 then
        (case cs of
           d # e # es \<Rightarrow>
             if d = CHR 0x80 \<and> (e = CHR 0xA8 \<or> e = CHR 0xA9) then rev cur # splitlines_from [] es
             else splitlines_from (c # cur) cs
         | _ \<Rightarrow> splitlines_from (c # cur) cs)
      else splitlines_from (c # cur) cs)"

definition splitlines :: "string \<Rightarrow> string list" where
  "splitlines s = splitlines_from [] s"

text \<open>
  The characters of a string, for iterating over it: every byte that is not a UTF-8
  continuation byte starts a new character.
\<close>

definition is_continuation :: "char \<Rightarrow> bool" where
  "is_continuation c = ((of_char c :: nat) div 64 = 2)"

fun characters :: "string \<Rightarrow> string list" where
  "characters [] = []"
| "characters (c # cs) =
     (case characters cs of
        [] \<Rightarrow> [[c]]
      | w # ws \<Rightarrow> (case w of
                    d # _ \<Rightarrow> if is_continuation d then (c # w) # ws else [c] # w # ws
                  | [] \<Rightarrow> [c] # ws))"

text \<open>The string inside a value, where the code needs one.\<close>

fun as_str :: "pyval \<Rightarrow> py_error + string" where
  "as_str (PStr s) = Inr s"
| "as_str _ = Inl TypeError"

fun all_str :: "pyval list \<Rightarrow> py_error + string list" where
  "all_str [] = Inr []"
| "all_str (v # vs) =
     and_then (as_str v) (\<lambda>s. and_then (all_str vs) (\<lambda>ss. Inr (s # ss)))"

text \<open>
  \<^verbatim>\<open>sep.join(v)\<close> on a value: a list has to hold strings only, a string is joined
  character by character, a mapping by its keys, anything else is not iterable.
\<close>

fun py_join :: "string \<Rightarrow> pyval \<Rightarrow> py_error + string" where
  "py_join sep (PList vs) = and_then (all_str vs) (\<lambda>ss. Inr (join sep ss))"
| "py_join sep (PStr s) = Inr (join sep (characters s))"
| "py_join sep (PDict kvs) = Inr (join sep (map fst kvs))"
| "py_join sep _ = Inl TypeError"

text \<open>\<^verbatim>\<open>xs.append(x)\<close>: only a list has the method.\<close>

fun py_append :: "pyval \<Rightarrow> pyval \<Rightarrow> py_error + pyval" where
  "py_append (PList vs) v = Inr (PList (vs @ [v]))"
| "py_append _ v = Inl AttributeError"

text \<open>
  \<^verbatim>\<open>set(xs)\<close>: the elements have to be hashable, which lists and mappings are not. Python
  sets identify \<^verbatim>\<open>True\<close> with \<^verbatim>\<open>1\<close> and \<^verbatim>\<open>False\<close> with \<^verbatim>\<open>0\<close>; the element stands for both.
\<close>

fun hashable :: "pyval \<Rightarrow> bool" where
  "hashable (PList _) = False"
| "hashable (PDict _) = False"
| "hashable _ = True"

fun set_element :: "pyval \<Rightarrow> pyval" where
  "set_element (PBool b) = PInt (if b then 1 else 0)"
| "set_element v = v"

fun py_set :: "pyval \<Rightarrow> py_error + pyval set" where
  "py_set (PList vs) =
     (if list_all hashable vs then Inr (set_element ` set vs) else Inl TypeError)"
| "py_set (PStr s) = Inr (PStr ` set (characters s))"
| "py_set (PDict kvs) = Inr (PStr ` fst ` set kvs)"
| "py_set _ = Inl TypeError"

subsection \<open>Fixed texts\<close>

definition e_acute :: string where "e_acute = [CHR 0xC3, CHR 0xA9]"
definition o_acute :: string where "o_acute = [CHR 0xC3, CHR 0xB3]"
definition a_acute :: string where "a_acute = [CHR 0xC3, CHR 0xA1]"
definition i_acute :: string where "i_acute = [CHR 0xC3, CHR 0xAD]"
definition a_tilde :: string where "a_tilde = [CHR 0xC3, CHR 0xA3]"
definition c_cedilla :: string where "c_cedilla = [CHR 0xC3, CHR 0xA7]"

text \<open>The standard message of \<^verbatim>\<open>_try_get\<close>, an f-string around the field name.\<close>

definition mandatory_msg :: "string \<Rightarrow> string" where
  "mandatory_msg field =
     ''O campo `'' @ field @ ''` '' @ e_acute @ '' obrigat'' @ o_acute @ ''rio.''"

definition invalid_terms_msg :: string where
  "invalid_terms_msg =
     ''O campo `terms` aceita como valores v'' @ a_acute @ ''lidos ''
     @ ''uma lista de strings ou par'' @ [CHR 0xC3, CHR 0xA2] @ ''metros do tipo ''
     @ ''`from_airflow_variable` ou `from_db_select`.''"

section \<open>parsers.py: YAMLParser\<close>

record DAGConfig =
  dag_id :: pyval
  search :: "(string \<times> pyval) list list"
  emails :: pyval
  subject :: pyval
  attach_csv :: pyval
  discord_webhook :: pyval
  slack_webhook :: pyval
  schedule :: pyval
  dataset :: pyval
  description :: pyval
  skip_null :: pyval
  doc_md :: pyval
  dag_tags :: "pyval set"
  owner :: string
  hide_filters :: pyval
  header_text :: pyval
  footer_text :: pyval
  no_results_found_text :: pyval

text \<open>\<^verbatim>\<open>self.filepath.split("/")[-1]\<close>\<close>

definition file_name :: "string \<Rightarrow> string" where
  "file_name filepath = last (split_on CHR ''/'' filepath)"

text \<open>
  \<^verbatim>\<open>_try_get\<close>: \<^verbatim>\<open>variable[field]\<close>, the KeyError of a missing key turned into a ValueError
  that names the file. An absent or empty \<^verbatim>\<open>error_msg\<close> gives the standard message.
\<close>

definition try_get :: "string \<Rightarrow> pyval \<Rightarrow> string \<Rightarrow> string option \<Rightarrow> py_error + pyval" where
  "try_get filepath variable field error_msg =
     (case py_subscript variable field of
        Inl (KeyError k) \<Rightarrow>
          (let error_msg1 = (case error_msg of
                               None \<Rightarrow> mandatory_msg field
                             | Some m \<Rightarrow> if m = [] then mandatory_msg field else m)
           in Inl (ValueError (''Erro no arquivo '' @ file_name filepath @ '': '' @ error_msg1)))
      | r \<Rightarrow> r)"

text \<open>
  \<^verbatim>\<open>_get_terms_params\<close> returns the triple \<^verbatim>\<open>(terms, sql, conn_id)\<close>. The membership tests
  are made in the order of the source: \<^verbatim>\<open>from_airflow_variable\<close> first.
\<close>

definition get_terms_params ::
  "externals \<Rightarrow> string \<Rightarrow> pyval \<Rightarrow> py_error + (pyval \<times> pyval \<times> pyval)" where
  "get_terms_params ext filepath search_block =
     and_then (try_get filepath search_block ''terms'' None) (\<lambda>terms.
       case terms of
         PDict d \<Rightarrow>
           (case map_of d ''from_airflow_variable'' of
              Some name \<Rightarrow>
                and_then (Variable_get ext name) (\<lambda>var_value.
                  case literal_eval ext var_value of
                    Inr v \<Rightarrow> Inr (v, PNone, PNone)
                  | Inl (ValueError m) \<Rightarrow>
                      Inr (PList (map PStr (splitlines var_value)), PNone, PNone)
                  | Inl SyntaxError \<Rightarrow>
                      Inr (PList (map PStr (splitlines var_value)), PNone, PNone)
                  | Inl e \<Rightarrow> Inl e)
            | None \<Rightarrow>
                (case map_of d ''from_db_select'' of
                   Some from_db_select \<Rightarrow>
                     and_then (try_get filepath from_db_select ''sql'' None) (\<lambda>sql.
                     and_then (try_get filepath from_db_select ''conn_id'' None) (\<lambda>conn_id.
                       Inr (PList [], sql, conn_id)))
                 | None \<Rightarrow> Inl (ValueError invalid_terms_msg)))
       | _ \<Rightarrow> Inr (terms, PNone, PNone))"

text \<open>The body of the loop over the search blocks: one \<^verbatim>\<open>proc_subsearch\<close> dictionary.\<close>

definition proc_subsearch ::
  "externals \<Rightarrow> string \<Rightarrow> pyval \<Rightarrow> py_error + (string \<times> pyval) list" where
  "proc_subsearch ext filepath subsearch =
     and_then (py_get subsearch ''header'' PNone) (\<lambda>header.
     and_then (py_get subsearch ''sources'' (PList [PStr ''DOU''])) (\<lambda>sources.
     and_then (get_terms_params ext filepath subsearch) (\<lambda>(terms, sql, conn_id).
     and_then (py_get subsearch ''territory_id'' PNone) (\<lambda>territory_id.
     and_then (py_get subsearch ''dou_sections'' (PList [PStr ''TODOS''])) (\<lambda>dou_sections.
     and_then (py_get subsearch ''date'' (PStr ''DIA'')) (\<lambda>search_date.
     and_then (py_get subsearch ''field'' (PStr ''TUDO'')) (\<lambda>field.
     and_then (py_get subsearch ''is_exact_search'' (PBool True)) (\<lambda>is_exact_search.
     and_then (py_get subsearch ''ignore_signature_match'' (PBool False)) (\<lambda>ignore_signature_match.
     and_then (py_get subsearch ''force_rematch'' PNone) (\<lambda>force_rematch.
     and_then (py_get subsearch ''full_text'' PNone) (\<lambda>full_text.
     and_then (py_get subsearch ''use_summary'' PNone) (\<lambda>use_summary.
     and_then (py_get subsearch ''department'' PNone) (\<lambda>department.
       Inr [(''header'', header), (''sources'', sources), (''terms'', terms),
            (''sql'', sql), (''conn_id'', conn_id), (''territory_id'', territory_id),
            (''dou_sections'', dou_sections), (''search_date'', search_date),
            (''field'', field), (''is_exact_search'', is_exact_search),
            (''ignore_signature_match'', ignore_signature_match),
            (''force_rematch'', force_rematch), (''full_text'', full_text),
            (''use_summary'', use_summary), (''department'', department)])))))))))))))"

fun proc_search_loop ::
  "externals \<Rightarrow> string \<Rightarrow> pyval list \<Rightarrow> (string \<times> pyval) list list
     \<Rightarrow> py_error + (string \<times> pyval) list list" where
  "proc_search_loop ext filepath [] proc_search = Inr proc_search"
| "proc_search_loop ext filepath (subsearch # rest) proc_search =
     and_then (proc_subsearch ext filepath subsearch) (\<lambda>p.
       proc_search_loop ext filepath rest (proc_search @ [p]))"

text \<open>\<^verbatim>\<open>report[key]["webhook"] if report.get(key) else None\<close>\<close>

definition webhook_of :: "pyval \<Rightarrow> string \<Rightarrow> py_error + pyval" where
  "webhook_of report key =
     and_then (py_get report key PNone) (\<lambda>c.
       if truthy c then and_then (py_subscript report key) (\<lambda>d. py_subscript d ''webhook'')
       else Inr PNone)"

text \<open>
  \<^verbatim>\<open>_parse_yaml\<close>, from the loaded document on (opening and loading the file are the
  caller's here). The statements follow the source's order, so the first one that raises
  decides the error.
\<close>

definition parse_yaml :: "externals \<Rightarrow> string \<Rightarrow> pyval \<Rightarrow> py_error + DAGConfig" where
  "parse_yaml ext filepath dag_config_dict =
     and_then (try_get filepath dag_config_dict ''dag'' None) (\<lambda>dag.
     and_then (try_get filepath dag ''id'' None) (\<lambda>dag_id.
     and_then (try_get filepath dag ''description'' None) (\<lambda>description.
     and_then (try_get filepath dag ''report'' None) (\<lambda>report.
     and_then (try_get filepath dag ''search'' None) (\<lambda>search0.
     and_then (proc_search_loop ext filepath
                 (case search0 of PList xs \<Rightarrow> xs | _ \<Rightarrow> [search0]) []) (\<lambda>proc_search.
     and_then (py_get dag ''owner'' (PList [])) (\<lambda>owner_list.
     and_then (py_join '', '' owner_list) (\<lambda>owner.
     and_then (webhook_of report ''discord'') (\<lambda>discord_webhook.
     and_then (webhook_of report ''slack'') (\<lambda>slack_webhook.
     and_then (py_get dag ''schedule'' PNone) (\<lambda>schedule.
     and_then (py_get dag ''dataset'' PNone) (\<lambda>dataset.
     and_then (py_get dag ''doc_md'' PNone) (\<lambda>doc_md0.
     and_then (if truthy doc_md0
               then and_then (as_str doc_md0) (\<lambda>s. Inr (PStr (dedent ext s)))
               else Inr doc_md0) (\<lambda>doc_md.
     and_then (py_get dag ''tags'' (PList [])) (\<lambda>dag_tags0.
     and_then (py_append dag_tags0 (PStr ''dou'')) (\<lambda>dag_tags1.
     and_then (py_append dag_tags1 (PStr ''generated_dag'')) (\<lambda>dag_tags2.
     and_then (py_get report ''skip_null'' (PBool True)) (\<lambda>skip_null.
     and_then (py_get report ''emails'' PNone) (\<lambda>emails.
     and_then (py_get report ''subject'' (PStr (''Extra'' @ c_cedilla @ ''ao do DOU''))) (\<lambda>subject.
     and_then (py_get report ''attach_csv'' (PBool False)) (\<lambda>attach_csv.
     and_then (py_get report ''hide_filters'' (PBool False)) (\<lambda>hide_filters.
     and_then (py_get report ''header_text'' PNone) (\<lambda>header_text.
     and_then (py_get report ''footer_text'' PNone) (\<lambda>footer_text.
     and_then (py_get report ''no_results_found_text''
                 (PStr ''Nenhum dos termos pesquisados foi encontrado nesta consulta''))
       (\<lambda>no_results_found_text.
     and_then (py_set dag_tags2) (\<lambda>tag_set.
       Inr \<lparr>dag_id = dag_id, search = proc_search, emails = emails, subject = subject,
            attach_csv = attach_csv, discord_webhook = discord_webhook,
            slack_webhook = slack_webhook, schedule = schedule, dataset = dataset,
            description = description, skip_null = skip_null, doc_md = doc_md,
            dag_tags = tag_set, owner = owner, hide_filters = hide_filters,
            header_text = header_text, footer_text = footer_text,
            no_results_found_text = no_results_found_text\<rparr>))))))))))))))))))))))))))"

text \<open>\<^verbatim>\<open>YAMLParser.parse\<close>\<close>

definition parse :: "externals \<Rightarrow> string \<Rightarrow> pyval \<Rightarrow> py_error + DAGConfig" where
  "parse ext filepath dag_config_dict = parse_yaml ext filepath dag_config_dict"

section \<open>The search report and the sender's configuration\<close>

text \<open>
  A match is a dictionary with the keys \<^verbatim>\<open>section\<close>, \<^verbatim>\<open>href\<close>, \<^verbatim>\<open>title\<close>, \<^verbatim>\<open>abstract\<close> and
  \<^verbatim>\<open>date\<close>. The result of one search maps a group to a mapping from search term to the
  list of its matches; both mappings are association lists in iteration order.
\<close>

record Match =
  "section" :: string
  href :: string
  title :: string
  abstract :: string
  date :: string

type_synonym term_results = "(string \<times> Match list) list"

type_synonym group_results = "(string \<times> term_results) list"

record search_result =
  header :: "string option"
  department :: "string list option"
  result :: group_results

text \<open>
  The attributes of \<^verbatim>\<open>specs\<close> that the senders read, with the types that the dataclass
  \<^verbatim>\<open>DAGConfig\<close> declares for them.
\<close>

record specs =
  subject :: string
  emails :: "string list"
  attach_csv :: bool
  skip_null :: bool
  slack_webhook :: string

section \<open>notification/email\_sender.py: EmailSender\<close>

subsection \<open>The tabular export\<close>

text \<open>
  A data frame: the column labels and the rows, a cell being \<^verbatim>\<open>None\<close> or a string.
\<close>

record dataframe =
  columns :: "string list"
  rows :: "string option list list"

definition repack_match ::
  "string option \<Rightarrow> string \<Rightarrow> string \<Rightarrow> Match \<Rightarrow> string option list" where
  "repack_match hdr grp search_term m =
     [hdr, Some grp, Some search_term, Some (section m), Some (href m),
      Some (title m), Some (abstract m), Some (date m)]"

text \<open>\<^verbatim>\<open>convert_report_dict_to_tuple_list\<close>: four nested loops appending to \<^verbatim>\<open>tuple_list\<close>.\<close>

definition tuples_of_search ::
  "search_result \<Rightarrow> string option list list \<Rightarrow> string option list list" where
  "tuples_of_search srch tuple_list =
     (let hdr = (case header srch of
                   Some h \<Rightarrow> if h \<noteq> [] then Some h else None
                 | None \<Rightarrow> None)
      in fold (\<lambda>(grp, results).
           fold (\<lambda>(term, matches).
             fold (\<lambda>m acc. acc @ [repack_match hdr grp term m]) matches) results)
           (result srch) tuple_list)"

definition convert_report_dict_to_tuple_list ::
  "search_result list \<Rightarrow> string option list list" where
  "convert_report_dict_to_tuple_list search_report = fold tuples_of_search search_report []"

definition csv_columns :: "string list" where
  "csv_columns =
     [''Consulta'', ''Grupo'', ''Termo de pesquisa'', ''Se'' @ c_cedilla @ a_tilde @ ''o'',
      ''URL'', ''T'' @ i_acute @ ''tulo'', ''Resumo'', ''Data'']"

text \<open>
  \<^verbatim>\<open>pd.DataFrame(tuple_list)\<close>: as many columns as the tuples are long, labelled by
  position (one digit is enough for the eight cells of a row), and none for an empty list.
\<close>

definition DataFrame :: "string option list list \<Rightarrow> dataframe" where
  "DataFrame tuple_list =
     \<lparr>columns = (case tuple_list of
                   [] \<Rightarrow> []
                 | r # _ \<Rightarrow> map (\<lambda>i. [char_of (48 + i)]) [0..<length r]),
      rows = tuple_list\<rparr>"

text \<open>
  \<^verbatim>\<open>df.columns = names\<close>: pandas raises a ValueError (length mismatch) unless there are as
  many names as columns.
\<close>

definition set_columns :: "dataframe \<Rightarrow> string list \<Rightarrow> py_error + dataframe" where
  "set_columns df names =
     (if length names = length (columns df) then Inr (df\<lparr>columns := names\<rparr>)
      else Inl (ValueError ''Length mismatch''))"

text \<open>\<^verbatim>\<open>del df[name]\<close>\<close>

definition del_column :: "string \<Rightarrow> dataframe \<Rightarrow> py_error + dataframe" where
  "del_column name df =
     (if name \<in> set (columns df) then
        Inr \<lparr>columns = filter (\<lambda>c. c \<noteq> name) (columns df),
             rows = map (\<lambda>r. map snd (filter (\<lambda>(c, x). c \<noteq> name) (zip (columns df) r)))
                      (rows df)\<rparr>
      else Inl (KeyError name))"

text \<open>The loop that decides which columns go: the state is \<^verbatim>\<open>(del_header, del_single_group)\<close>.\<close>

definition del_flags_step :: "search_result \<Rightarrow> bool \<times> bool \<Rightarrow> bool \<times> bool" where
  "del_flags_step srch st =
     (case st of (del_header, del_single_group) \<Rightarrow>
        (if header srch \<noteq> None then False else del_header,
         if ''single_group'' \<in> set (map fst (result srch)) then True else del_single_group))"

definition convert_report_to_dataframe :: "search_result list \<Rightarrow> py_error + dataframe" where
  "convert_report_to_dataframe search_report =
     and_then (set_columns (DataFrame (convert_report_dict_to_tuple_list search_report))
                 csv_columns) (\<lambda>df.
       case fold del_flags_step search_report (True, False) of
         (del_header, del_single_group) \<Rightarrow>
           and_then (if del_header then del_column ''Consulta'' df else Inr df) (\<lambda>df1.
             if del_single_group then del_column ''Grupo'' df1 else Inr df1))"

text \<open>\<^verbatim>\<open>get_csv_tempfile\<close>: the temporary file, as its name and the table written to it.\<close>

definition get_csv_tempfile ::
  "externals \<Rightarrow> search_result list \<Rightarrow> py_error + (string \<times> dataframe)" where
  "get_csv_tempfile ext search_report =
     and_then (convert_report_to_dataframe search_report) (\<lambda>df.
       Inr (tempfile_name ext, df))"

subsection \<open>The HTML content\<close>

definition item_html :: "Match \<Rightarrow> string" where
  \<open>item_html item =
     ''\<newline>'' @ replicate 36 CHR '' '' @ ''<p class="secao-marker">'' @ section item @ ''</p>''
     @ ''\<newline>'' @ replicate 36 CHR '' '' @ ''### ['' @ title item @ '']('' @ href item @ '')''
     @ ''\<newline>'' @ replicate 36 CHR '' '' @ ''<p class='' @ [CHR 0x27] @ ''abstract-marker''
       @ [CHR 0x27] @ ''>'' @ abstract item @ ''</p>''
     @ ''\<newline>'' @ replicate 36 CHR '' '' @ ''<p class='' @ [CHR 0x27] @ ''date-marker''
       @ [CHR 0x27] @ ''>'' @ date item @ ''</p>''\<close>

definition term_fragments ::
  "externals \<Rightarrow> string \<times> Match list \<Rightarrow> string list \<Rightarrow> string list" where
  "term_fragments ext tm blks =
     (case tm of (term, items) \<Rightarrow>
        fold (\<lambda>item acc. acc @ [indent ext (dedent ext (item_html item)) (replicate 4 CHR '' '')])
          items (blks @ [''\<newline>'', ''* # Resultados para: '' @ term]))"

definition group_fragments ::
  "externals \<Rightarrow> string \<times> term_results \<Rightarrow> string list \<Rightarrow> string list" where
  "group_fragments ext gr blks =
     (case gr of (grp, results) \<Rightarrow>
        if results = [] then
          blks @ [''Nenhum dos termos pesquisados foi encontrado nesta consulta.'']
        else
          fold (term_fragments ext) results
            (if grp \<noteq> ''single_group''
             then blks @ [''\<newline>'', ''**Grupo: '' @ grp @ ''**'', ''\<newline>\<newline>'']
             else blks))"

definition search_fragments ::
  "externals \<Rightarrow> search_result \<Rightarrow> string list \<Rightarrow> string list" where
  \<open>search_fragments ext srch blks =
     (let blks1 = (case header srch of
                     Some h \<Rightarrow> if h \<noteq> [] then blks @ [''<h1>'' @ h @ ''</h1>''] else blks
                   | None \<Rightarrow> blks);
          blks2 = (case department srch of
                     Some dpts \<Rightarrow>
                       if dpts \<noteq> [] then
                         blks1
                         @ [''<p class="secao-marker">Filtrando resultados somente para:</p>'']
                         @ [''<ul>'']
                         @ map (\<lambda>dpt. ''<li>'' @ dpt @ ''</li>'') dpts
                         @ [''</ul>'']
                       else blks1
                   | None \<Rightarrow> blks1)
      in fold (group_fragments ext) (result srch) blks2 @ [''---''])\<close>

definition generate_email_content :: "externals \<Rightarrow> search_result list \<Rightarrow> string" where
  "generate_email_content ext search_report =
     markdown ext (join ''\<newline>''
       (fold (search_fragments ext) search_report
          [''<style>\<newline>'' @ report_style_css ext @ ''</style>'']))"

subsection \<open>send\<close>

text \<open>
  A call of the mail sink \<^verbatim>\<open>send_email\<close>: \<^verbatim>\<open>to\<close>, \<^verbatim>\<open>subject\<close>, \<^verbatim>\<open>files\<close> (absent, or the
  temporary files with what was written to them), \<^verbatim>\<open>html_content\<close> and \<^verbatim>\<open>mime_charset\<close>.
\<close>

datatype mail_call =
  send_email "string list" string "(string \<times> dataframe) list option" string string

text \<open>What a call of \<^verbatim>\<open>send\<close> that does not raise leaves: the value returned
  (\<^verbatim>\<open>None\<close> or a string) and the calls made to the mail sink.\<close>

record send_outcome =
  returned :: "string option"
  mail_sink :: "mail_call list"

definition nothing_found :: string where
  "nothing_found = ''Nenhum dos termos pesquisados foi encontrado.''"

text \<open>
  The first loop of \<^verbatim>\<open>send\<close>. Its state is \<^verbatim>\<open>(skip_notification, content)\<close>, the local
  variable \<^verbatim>\<open>content\<close> being \<open>None\<close> as long as nothing was assigned to it. The test
  \<^verbatim>\<open>if v\<close> is on the value of a group: its mapping from term to matches.
\<close>

definition scan_search :: "search_result \<Rightarrow> bool \<times> string option \<Rightarrow> bool \<times> string option" where
  "scan_search srch st =
     (case st of (skip_notification, content) \<Rightarrow>
        (let items = map (\<lambda>kv. ''contains'') (filter (\<lambda>(k, v). v \<noteq> []) (result srch))
         in if items \<noteq> [] then (False, content)
            else (skip_notification, Some nothing_found)))"

text \<open>Reading a local variable: unbound, it raises.\<close>

definition read_local :: "'a option \<Rightarrow> py_error + 'a" where
  "read_local v = (case v of None \<Rightarrow> Inl UnboundLocalError | Some x \<Rightarrow> Inr x)"

text \<open>The last statement of \<^verbatim>\<open>send\<close>: with or without the CSV file.\<close>

definition deliver ::
  "externals \<Rightarrow> specs \<Rightarrow> search_result list \<Rightarrow> string \<Rightarrow> bool \<Rightarrow> string option
     \<Rightarrow> py_error + send_outcome" where
  "deliver ext sp search_report full_subject skip_notification content =
     (if attach_csv sp \<and> skip_notification = False then
        and_then (get_csv_tempfile ext search_report) (\<lambda>csv_file.
        and_then (read_local content) (\<lambda>c.
          Inr \<lparr>returned = None,
               mail_sink = [send_email (emails sp) full_subject (Some [csv_file]) c ''utf-8'']\<rparr>))
      else
        and_then (read_local content) (\<lambda>c.
          Inr \<lparr>returned = None,
               mail_sink = [send_email (emails sp) full_subject None c ''utf-8'']\<rparr>))"

definition EmailSender_send ::
  "externals \<Rightarrow> specs \<Rightarrow> search_result list \<Rightarrow> string \<Rightarrow> py_error + send_outcome" where
  "EmailSender_send ext sp search_report report_date =
     (let full_subject = subject sp @ '' - DOs de '' @ report_date
      in case fold scan_search search_report (True, None) of
           (skip_notification, content) \<Rightarrow>
             if skip_notification then
               (if skip_null sp then
                  Inr \<lparr>returned = Some ''skip_notification'', mail_sink = []\<rparr>
                else deliver ext sp search_report full_subject skip_notification content)
             else
               deliver ext sp search_report full_subject skip_notification
                 (Some (generate_email_content ext search_report)))"

section \<open>notification/slack\_sender.py: SlackSender\<close>

record SlackSender =
  webhook_url :: string
  blocks :: "pyval list"

definition SlackSender_init :: "specs \<Rightarrow> SlackSender" where
  "SlackSender_init sp = \<lparr>webhook_url = slack_webhook sp, blocks = []\<rparr>"

definition header_block :: "string \<Rightarrow> pyval" where
  "header_block text =
     PDict [(''type'', PStr ''header''),
            (''text'', PDict [(''type'', PStr ''plain_text''), (''text'', PStr text),
                              (''emoji'', PBool True)])]"

definition add_header :: "string \<Rightarrow> SlackSender \<Rightarrow> SlackSender" where
  "add_header text s = s\<lparr>blocks := blocks s @ [header_block text]\<rparr>"

definition section_block :: "string \<Rightarrow> pyval" where
  "section_block text =
     PDict [(''type'', PStr ''section''),
            (''text'', PDict [(''type'', PStr ''mrkdwn''), (''text'', PStr text)])]"

definition published_block :: "string \<Rightarrow> pyval" where
  "published_block url =
     PDict [(''type'', PStr ''section''),
            (''text'', PDict [(''type'', PStr ''mrkdwn''),
                              (''text'', PStr ''Publicado em: 15/03/2023'')]),
            (''accessory'',
               PDict [(''type'', PStr ''button''),
                      (''text'', PDict [(''type'', PStr ''plain_text''),
                                        (''text'', PStr (''Acessar publica'' @ c_cedilla
                                                          @ a_tilde @ ''o'')),
                                        (''emoji'', PBool True)]),
                      (''value'', PStr ''click_me_123''),
                      (''url'', PStr url),
                      (''action_id'', PStr ''button-action'')])]"

definition divider_block :: pyval where
  "divider_block = PDict [(''type'', PStr ''divider'')]"

definition add_block :: "Match \<Rightarrow> SlackSender \<Rightarrow> SlackSender" where
  "add_block item s =
     s\<lparr>blocks := blocks s @ [section_block (title item), section_block (abstract item),
                              published_block (href item), divider_block]\<rparr>"

text \<open>
  What a call of \<^verbatim>\<open>send\<close> leaves: the sender object, the requests posted (URL and JSON
  body) and the exception raised, if any.
\<close>

record slack_outcome =
  sender :: SlackSender
  posted :: "(string \<times> (string \<times> pyval) list) list"
  raised :: "py_error option"

text \<open>
  \<^verbatim>\<open>_flush\<close>: one POST of \<^verbatim>\<open>{'blocks': self.blocks}\<close>; \<^verbatim>\<open>raise_for_status\<close> raises on a
  status from 400 to 599. Nothing is assigned to \<^verbatim>\<open>self.blocks\<close>.
\<close>

definition flush :: "externals \<Rightarrow> SlackSender \<Rightarrow> slack_outcome" where
  "flush ext s =
     (let data = [(''blocks'', PList (blocks s))];
          status = post_status ext (webhook_url s) data
      in \<lparr>sender = s, posted = [(webhook_url s, data)],
          raised = (if 400 \<le> status \<and> status < 600 then Some (HTTPError status) else None)\<rparr>)"

definition send_term :: "string \<times> Match list \<Rightarrow> SlackSender \<Rightarrow> SlackSender" where
  "send_term tm s =
     (case tm of (term, items) \<Rightarrow>
        if items \<noteq> [] then fold add_block items (add_header (''Termo: '' @ term) s) else s)"

definition send_group :: "string \<times> term_results \<Rightarrow> SlackSender \<Rightarrow> SlackSender" where
  "send_group gr s =
     (case gr of (grp, results) \<Rightarrow>
        fold send_term results
          (if grp \<noteq> ''single_group'' then add_header (''Grupo: '' @ grp) s else s))"

definition SlackSender_send :: "externals \<Rightarrow> SlackSender \<Rightarrow> group_results \<Rightarrow> slack_outcome" where
  "SlackSender_send ext s search_report = flush ext (fold send_group search_report s)"

section \<open>Notions of the specification and sample inputs\<close>

text \<open>
  The specification calls a report empty when no term of any group of any block has a
  match. The loop of \<^verbatim>\<open>send\<close> looks one level higher: a block counts for nothing when every
  group of it has an empty mapping of terms.
\<close>

definition no_term_matched :: "search_result list \<Rightarrow> bool" where
  "no_term_matched search_report =
     list_all (\<lambda>srch.
       list_all (\<lambda>(grp, results). list_all (\<lambda>(term, matches). matches = []) results)
         (result srch)) search_report"

definition block_is_empty :: "search_result \<Rightarrow> bool" where
  "block_is_empty srch = list_all (\<lambda>(grp, results). results = []) (result srch)"

text \<open>
  Sample collaborators for the concrete runs. \<open>sample_literal_eval\<close> gives the values of
  \<^verbatim>\<open>ast.literal_eval\<close> on the two literals that the runs use and the syntax error that
  Python reports for the text of two lines; no run applies it to another string. The text
  utilities and the markup expansion leave their input as it is.
\<close>

definition sample_Variable_get :: "pyval \<Rightarrow> py_error + string" where
  \<open>sample_Variable_get name =
     (if name = PStr ''X'' then Inr ''["a","b"]''
      else if name = PStr ''Y'' then Inr ''a\<newline>b''
      else if name = PStr ''N'' then Inr ''42''
      else Inl (KeyError ''Variable does not exist''))\<close>

definition sample_literal_eval :: "string \<Rightarrow> py_error + pyval" where
  \<open>sample_literal_eval s =
     (if s = ''["a","b"]'' then Inr (PList [PStr ''a'', PStr ''b''])
      else if s = ''42'' then Inr (PInt 42)
      else Inl SyntaxError)\<close>

definition sample_externals :: externals where
  "sample_externals =
     \<lparr>Variable_get = sample_Variable_get, literal_eval = sample_literal_eval,
      dedent = (\<lambda>s. s), indent = (\<lambda>s prefix. s), markdown = (\<lambda>s. s),
      report_style_css = ''p { margin: 0; }'', tempfile_name = ''/tmp/extracao_dou_x.csv'',
      post_status = (\<lambda>url data. 200)\<rparr>"

definition sample_specs :: specs where
  "sample_specs =
     \<lparr>subject = ''Teste'', emails = [''a@b.c''], attach_csv = False, skip_null = True,
      slack_webhook = ''https://hooks.example/T0''\<rparr>"

text \<open>One block, one term searched for, nothing found for it.\<close>

definition unmatched_term_report :: "search_result list" where
  "unmatched_term_report =
     [\<lparr>header = None, department = None, result = [(''single_group'', [(''lgpd'', [])])]\<rparr>]"

text \<open>One block whose only group has no term at all.\<close>

definition empty_group_report :: "search_result list" where
  "empty_group_report =
     [\<lparr>header = Some ''Busca'', department = None, result = [(''single_group'', [])]\<rparr>]"

text \<open>One block with a header and a named group; its only term has no match.\<close>

definition unmatched_group_report :: "search_result list" where
  "unmatched_group_report =
     [\<lparr>header = Some ''Busca'', department = None, result = [(''grupo1'', [(''lgpd'', [])])]\<rparr>]"

text \<open>
  The sequence of chat blocks that the specification describes for a report: per group a
  header unless the key is the sentinel, then per term with a match a header and, per
  match, the title, the abstract, the publication caption with its button, and a divider.
\<close>

definition match_blocks :: "Match \<Rightarrow> pyval list" where
  "match_blocks m =
     [section_block (title m), section_block (abstract m), published_block (href m),
      divider_block]"

definition term_blocks :: "string \<times> Match list \<Rightarrow> pyval list" where
  "term_blocks tm =
     (case tm of (term, matches) \<Rightarrow>
        if matches = [] then []
        else header_block (''Termo: '' @ term) # concat (map match_blocks matches))"

definition group_blocks :: "string \<times> term_results \<Rightarrow> pyval list" where
  "group_blocks gr =
     (case gr of (grp, results) \<Rightarrow>
        (if grp = ''single_group'' then [] else [header_block (''Grupo: '' @ grp)])
        @ concat (map term_blocks results))"

definition chat_blocks :: "group_results \<Rightarrow> pyval list" where
  "chat_blocks search_report = concat (map group_blocks search_report)"

definition sample_match :: "string \<Rightarrow> Match" where
  "sample_match n =
     \<lparr>section = ''DOU - Se'' @ c_cedilla @ a_tilde @ ''o 1'',
      href = ''https://www.in.gov.br/'' @ n,
      title = ''Portaria '' @ n, abstract = ''Resumo '' @ n, date = ''02/01/2024''\<rparr>"

definition first_report :: group_results where
  "first_report = [(''single_group'', [(''lgpd'', [sample_match ''1''])])]"

definition second_report :: group_results where
  "second_report = [(''single_group'', [(''dados abertos'', [sample_match ''2''])])]"

text \<open>The two flags after the loop of \<^verbatim>\<open>convert_report_to_dataframe\<close>.\<close>

definition del_header_of :: "search_result list \<Rightarrow> bool" where
  "del_header_of report = list_all (\<lambda>b. header b = None) report"

definition del_single_group_of :: "search_result list \<Rightarrow> bool" where
  "del_single_group_of report =
     list_ex (\<lambda>b. ''single_group'' \<in> set (map fst (result b))) report"

text \<open>
  Two blocks, the first with a header and an ungrouped match, the second without header
  and without match; and the table exported for them.
\<close>

definition two_block_report :: "search_result list" where
  "two_block_report =
     [\<lparr>header = Some ''Busca'', department = None,
       result = [(''single_group'', [(''lgpd'', [sample_match ''1''])])]\<rparr>,
      \<lparr>header = None, department = None,
       result = [(''grupo1'', [(''dados abertos'', [])])]\<rparr>]"

definition two_block_frame :: dataframe where
  "two_block_frame =
     \<lparr>columns = [''Consulta'', ''Termo de pesquisa'', ''Se'' @ c_cedilla @ a_tilde @ ''o'',
                 ''URL'', ''T'' @ i_acute @ ''tulo'', ''Resumo'', ''Data''],
      rows = [[Some ''Busca'', Some ''lgpd'',
               Some (''DOU - Se'' @ c_cedilla @ a_tilde @ ''o 1''),
               Some ''https://www.in.gov.br/1'', Some ''Portaria 1'', Some ''Resumo 1'',
               Some ''02/01/2024'']]\<rparr>"

text \<open>
  The two shapes of message that \<^verbatim>\<open>parse\<close> gives a ValueError: the fixed text about
  \<^verbatim>\<open>terms\<close>, raised directly, and the message of \<^verbatim>\<open>_try_get\<close> about a missing field, which
  starts with the file name. \<open>raises_only\<close> says that a result, if it is a ValueError, has
  one of the two.
\<close>

definition config_error_shape :: "string \<Rightarrow> string \<Rightarrow> bool" where
  "config_error_shape fp m \<longleftrightarrow>
     m = invalid_terms_msg
     \<or> (\<exists>field. m = ''Erro no arquivo '' @ file_name fp @ '': '' @ mandatory_msg field)"

definition raises_only :: "string \<Rightarrow> py_error + 'a \<Rightarrow> bool" where
  "raises_only fp r \<longleftrightarrow> (\<forall>m. r = Inl (ValueError m) \<longrightarrow> config_error_shape fp m)"

text \<open>A document whose \<^verbatim>\<open>terms\<close> is a mapping with neither of the two accepted keys.\<close>

definition bad_terms_doc :: pyval where
  "bad_terms_doc =
     PDict [(''dag'',
             PDict [(''id'', PStr ''teste''),
                    (''description'', PStr ''Teste''),
                    (''search'', PDict [(''terms'', PDict [(''from_variable'', PStr ''X'')])]),
                    (''report'', PDict [(''emails'', PList [PStr ''a@b.c''])])])]"

text \<open>Search blocks whose \<^verbatim>\<open>terms\<close> name an Airflow variable.\<close>

definition variable_block :: "string \<Rightarrow> (string \<times> pyval) list" where
  "variable_block name = [(''terms'', PDict [(''from_airflow_variable'', PStr name)])]"

text \<open>Search blocks whose \<^verbatim>\<open>terms\<close> have the key \<^verbatim>\<open>from_db_select\<close>.\<close>

definition select_params :: "(string \<times> pyval) list" where
  "select_params = [(''sql'', PStr ''SELECT termo FROM t''), (''conn_id'', PStr ''c'')]"

definition select_block :: "(string \<times> pyval) list" where
  "select_block = [(''terms'', PDict [(''from_db_select'', PDict select_params)])]"

definition both_keys_block :: "(string \<times> pyval) list" where
  "both_keys_block =
     [(''terms'', PDict [(''from_airflow_variable'', PStr ''Y''),
                         (''from_db_select'', PDict select_params)])]"

definition select_string_block :: "(string \<times> pyval) list" where
  "select_string_block =
     [(''terms'', PDict [(''from_db_select'', PStr ''SELECT termo FROM t'')])]"

section \<open>Properties\<close>

subsection \<open>Auxiliary facts\<close>

lemma and_then_Inl [simp]: "and_then (Inl e) f = Inl e"
  by (simp add: and_then_def)

lemma and_then_Inr [simp]: "and_then (Inr x) f = f x"
  by (simp add: and_then_def)

text \<open>The first loop of \<^verbatim>\<open>send\<close>, one block and then a whole report.\<close>

lemma scan_search_step:
  "scan_search srch (sk, c) =
     (if block_is_empty srch then (sk, Some nothing_found) else (False, c))"
  by (auto simp: scan_search_def block_is_empty_def list_all_iff filter_empty_conv)

lemma fold_scan_search:
  "fold scan_search report (sk, c) =
     (sk \<and> list_all block_is_empty report,
      if list_ex block_is_empty report then Some nothing_found else c)"
  by (induction report arbitrary: sk c) (auto simp: scan_search_step)

lemmas email_run_defs =
  EmailSender_send_def scan_search_def deliver_def read_local_def generate_email_content_def
  search_fragments_def group_fragments_def term_fragments_def sample_externals_def
  sample_specs_def

subsection \<open>EmailSender.send: suppression\<close>

text \<open>
  C1, as the specification has it: whenever no term of the report has a match and
  \<^verbatim>\<open>skip_null\<close> is set, \<^verbatim>\<open>send\<close> returns the skipped result and calls no mail sink. The
  code does not do that for a block that lists a term with an empty list of matches: the
  group's mapping is not empty, so \<^verbatim>\<open>skip_notification\<close> is cleared and the mail is sent.
\<close>

theorem C1_unmatched_term_is_sent:
  "no_term_matched unmatched_term_report \<and> skip_null sample_specs \<and>
   EmailSender_send sample_externals sample_specs unmatched_term_report ''02/01/2024'' =
     Inr \<lparr>returned = None,
          mail_sink =
            [send_email [''a@b.c''] ''Teste - DOs de 02/01/2024'' None
               (''<style>\<newline>p { margin: 0; }</style>\<newline>\<newline>\<newline>''
                @ ''* # Resultados para: lgpd\<newline>---'')
               ''utf-8'']\<rparr>"
  by (simp add: no_term_matched_def unmatched_term_report_def email_run_defs)

text \<open>
  C1, amended: for every report in which every group of every block has an empty mapping
  of terms (a block without groups included), and \<^verbatim>\<open>skip_null\<close> set, \<^verbatim>\<open>send\<close> returns
  \<^verbatim>\<open>"skip_notification"\<close> and makes no call to the mail sink.
\<close>

theorem C1_skip_when_groups_empty:
  assumes "list_all block_is_empty search_report" and "skip_null sp"
  shows "EmailSender_send ext sp search_report report_date =
           Inr \<lparr>returned = Some ''skip_notification'', mail_sink = []\<rparr>"
  using assms by (simp add: EmailSender_send_def fold_scan_search)

theorem C1_skip_when_groups_empty_witness:
  "list_all block_is_empty empty_group_report \<and> skip_null sample_specs \<and>
   EmailSender_send sample_externals sample_specs empty_group_report ''02/01/2024'' =
     Inr \<lparr>returned = Some ''skip_notification'', mail_sink = []\<rparr>"
proof -
  have e: "list_all block_is_empty empty_group_report"
    by (simp add: empty_group_report_def block_is_empty_def)
  have s: "skip_null sample_specs"
    by (simp add: sample_specs_def)
  from C1_skip_when_groups_empty [OF e s] e s show ?thesis
    by simp
qed

subsection \<open>EmailSender.send: the report without results\<close>

text \<open>
  C8, as the specification has it: for every report without a match and \<^verbatim>\<open>skip_null\<close>
  off, the mail is sent and its body is the fixed sentence alone. Two runs of the code
  differ. A block that lists a term with no match goes through \<^verbatim>\<open>generate_email_content\<close>:
  style sheet, header, group line, term line and separator, and no fixed sentence. A report
  of no block at all leaves \<^verbatim>\<open>content\<close> unassigned, and nothing is sent.
\<close>

theorem C8_unmatched_term_gets_full_structure:
  "no_term_matched unmatched_group_report \<and> \<not> skip_null (sample_specs\<lparr>skip_null := False\<rparr>) \<and>
   EmailSender_send sample_externals (sample_specs\<lparr>skip_null := False\<rparr>) unmatched_group_report
       ''02/01/2024'' =
     Inr \<lparr>returned = None,
          mail_sink =
            [send_email [''a@b.c''] ''Teste - DOs de 02/01/2024'' None
               (''<style>\<newline>p { margin: 0; }</style>\<newline><h1>Busca</h1>\<newline>\<newline>\<newline>''
                @ ''**Grupo: grupo1**\<newline>\<newline>\<newline>\<newline>\<newline>\<newline>''
                @ ''* # Resultados para: lgpd\<newline>---'')
               ''utf-8'']\<rparr> \<and>
   EmailSender_send sample_externals (sample_specs\<lparr>skip_null := False\<rparr>) [] ''02/01/2024'' =
     Inl UnboundLocalError"
  by (simp add: no_term_matched_def unmatched_group_report_def email_run_defs)

text \<open>
  C8, amended: for every report of at least one block in which every group of every block
  has an empty mapping of terms, and \<^verbatim>\<open>skip_null\<close> off, \<^verbatim>\<open>send\<close> makes exactly one call to
  the mail sink, without attachment, whose HTML body is exactly the fixed sentence
  \<^verbatim>\<open>Nenhum dos termos pesquisados foi encontrado.\<close>
\<close>

theorem C8_nothing_found_message:
  assumes "search_report \<noteq> []" and "list_all block_is_empty search_report"
    and "\<not> skip_null sp"
  shows "EmailSender_send ext sp search_report report_date =
           Inr \<lparr>returned = None,
                mail_sink = [send_email (emails sp) (subject sp @ '' - DOs de '' @ report_date)
                               None nothing_found ''utf-8'']\<rparr>"
proof -
  from assms(1,2) have "list_ex block_is_empty search_report"
    by (cases search_report) auto
  with assms(2,3) show ?thesis
    by (simp add: EmailSender_send_def fold_scan_search deliver_def read_local_def)
qed

theorem C8_nothing_found_message_witness:
  "empty_group_report \<noteq> [] \<and> list_all block_is_empty empty_group_report
   \<and> \<not> skip_null (sample_specs\<lparr>skip_null := False\<rparr>) \<and>
   EmailSender_send sample_externals (sample_specs\<lparr>skip_null := False\<rparr>) empty_group_report
       ''02/01/2024'' =
     Inr \<lparr>returned = None,
          mail_sink = [send_email [''a@b.c''] ''Teste - DOs de 02/01/2024'' None
                         ''Nenhum dos termos pesquisados foi encontrado.'' ''utf-8'']\<rparr>"
proof -
  have n: "empty_group_report \<noteq> []"
    by (simp add: empty_group_report_def)
  have e: "list_all block_is_empty empty_group_report"
    by (simp add: empty_group_report_def block_is_empty_def)
  have s: "\<not> skip_null (sample_specs\<lparr>skip_null := False\<rparr>)"
    by simp
  from C8_nothing_found_message [OF n e s, of sample_externals "''02/01/2024''"] n e s
  show ?thesis
    by (simp add: sample_specs_def nothing_found_def)
qed

text \<open>
  C10: on the report of zero blocks with \<^verbatim>\<open>skip_null\<close> off, \<^verbatim>\<open>send\<close> raises the error of an
  unbound local variable: the loop never assigns \<^verbatim>\<open>content\<close>, and reading it for the
  argument of the mail sink fails before the sink is called. So \<^verbatim>\<open>send\<close> does not return
  on every report.
\<close>

theorem C10_no_block_unbound_content:
  assumes "\<not> skip_null sp"
  shows "EmailSender_send ext sp [] report_date = Inl UnboundLocalError"
  using assms by (simp add: EmailSender_send_def deliver_def read_local_def)

theorem C10_no_block_unbound_content_witness:
  "\<not> skip_null (sample_specs\<lparr>skip_null := False, attach_csv := True\<rparr>) \<and>
   EmailSender_send sample_externals (sample_specs\<lparr>skip_null := False, attach_csv := True\<rparr>) []
     ''02/01/2024'' = Inl UnboundLocalError"
  using C10_no_block_unbound_content
    [of "sample_specs\<lparr>skip_null := False, attach_csv := True\<rparr>" sample_externals "''02/01/2024''"]
  by simp

subsection \<open>SlackSender.send\<close>

lemma fold_add_block:
  "fold add_block items s = s\<lparr>blocks := blocks s @ concat (map match_blocks items)\<rparr>"
  by (induction items arbitrary: s) (simp_all add: add_block_def match_blocks_def)

lemma send_term_blocks: "send_term tm s = s\<lparr>blocks := blocks s @ term_blocks tm\<rparr>"
  by (cases tm) (simp add: send_term_def term_blocks_def fold_add_block add_header_def)

lemma fold_send_term:
  "fold send_term results s = s\<lparr>blocks := blocks s @ concat (map term_blocks results)\<rparr>"
  by (induction results arbitrary: s) (simp_all add: send_term_blocks)

lemma send_group_blocks: "send_group gr s = s\<lparr>blocks := blocks s @ group_blocks gr\<rparr>"
  by (cases gr) (simp add: send_group_def group_blocks_def fold_send_term add_header_def)

lemma fold_send_group:
  "fold send_group search_report s = s\<lparr>blocks := blocks s @ chat_blocks search_report\<rparr>"
  by (induction search_report arbitrary: s) (simp_all add: send_group_blocks chat_blocks_def)

lemmas slack_run_defs =
  SlackSender_send_def flush_def SlackSender_init_def send_group_def send_term_def
  add_block_def add_header_def chat_blocks_def group_blocks_def term_blocks_def
  match_blocks_def sample_match_def sample_specs_def sample_externals_def

text \<open>
  The block sequence of the helper lemmas above, with every block written out as the
  value that \<^verbatim>\<open>_add_header\<close> and \<^verbatim>\<open>_add_block\<close> build.
\<close>

lemma match_blocks_literal:
  "match_blocks =
     (\<lambda>m. [PDict [(''type'', PStr ''section''),
                  (''text'', PDict [(''type'', PStr ''mrkdwn''), (''text'', PStr (title m))])],
           PDict [(''type'', PStr ''section''),
                  (''text'', PDict [(''type'', PStr ''mrkdwn''), (''text'', PStr (abstract m))])],
           PDict [(''type'', PStr ''section''),
                  (''text'', PDict [(''type'', PStr ''mrkdwn''),
                                    (''text'', PStr ''Publicado em: 15/03/2023'')]),
                  (''accessory'',
                     PDict [(''type'', PStr ''button''),
                            (''text'',
                               PDict [(''type'', PStr ''plain_text''),
                                      (''text'', PStr (''Acessar publica''
                                         @ [CHR 0xC3, CHR 0xA7, CHR 0xC3, CHR 0xA3] @ ''o'')),
                                      (''emoji'', PBool True)]),
                            (''value'', PStr ''click_me_123''),
                            (''url'', PStr (href m)),
                            (''action_id'', PStr ''button-action'')])],
           PDict [(''type'', PStr ''divider'')]])"
  by (rule ext)
    (simp add: match_blocks_def section_block_def published_block_def divider_block_def
      c_cedilla_def a_tilde_def)

lemma term_blocks_literal:
  "term_blocks =
     (\<lambda>(term, matches).
        if matches = [] then []
        else PDict [(''type'', PStr ''header''),
                    (''text'', PDict [(''type'', PStr ''plain_text''),
                                      (''text'', PStr (''Termo: '' @ term)),
                                      (''emoji'', PBool True)])]
             # concat (map match_blocks matches))"
  by (rule ext) (simp add: term_blocks_def header_block_def split: prod.splits)

lemma group_blocks_literal:
  "group_blocks =
     (\<lambda>(grp, results).
        (if grp = ''single_group'' then []
         else [PDict [(''type'', PStr ''header''),
                      (''text'', PDict [(''type'', PStr ''plain_text''),
                                        (''text'', PStr (''Grupo: '' @ grp)),
                                        (''emoji'', PBool True)])]])
        @ concat (map term_blocks results))"
  by (rule ext) (simp add: group_blocks_def header_block_def split: prod.splits)

text \<open>
  C4: for every report, the blocks that \<^verbatim>\<open>send\<close> appends are, per group in order, no
  header for the key \<^verbatim>\<open>single_group\<close> and otherwise one header block with the plain text
  \<^verbatim>\<open>Grupo: \<close> and the group; then for each term with at least one match one header block
  with \<^verbatim>\<open>Termo: \<close> and the term, and per match, in order, a section with the title, a
  section with the abstract, a section with the fixed caption \<^verbatim>\<open>Publicado em: 15/03/2023\<close>
  whose accessory is a button with the match's \<^verbatim>\<open>href\<close> as its URL, and a divider; a term
  without match adds nothing. On a newly made sender these are the blocks of the one
  payload posted.
\<close>

theorem C4_chat_block_sequence:
  "(let rendered =
      concat (map (\<lambda>(grp, results).
        (if grp = ''single_group'' then []
         else [PDict [(''type'', PStr ''header''),
                      (''text'', PDict [(''type'', PStr ''plain_text''),
                                        (''text'', PStr (''Grupo: '' @ grp)),
                                        (''emoji'', PBool True)])]])
        @ concat (map (\<lambda>(term, matches).
            if matches = [] then []
            else PDict [(''type'', PStr ''header''),
                        (''text'', PDict [(''type'', PStr ''plain_text''),
                                          (''text'', PStr (''Termo: '' @ term)),
                                          (''emoji'', PBool True)])]
                 # concat (map (\<lambda>m.
                     [PDict [(''type'', PStr ''section''),
                             (''text'', PDict [(''type'', PStr ''mrkdwn''),
                                               (''text'', PStr (title m))])],
                      PDict [(''type'', PStr ''section''),
                             (''text'', PDict [(''type'', PStr ''mrkdwn''),
                                               (''text'', PStr (abstract m))])],
                      PDict [(''type'', PStr ''section''),
                             (''text'', PDict [(''type'', PStr ''mrkdwn''),
                                               (''text'', PStr ''Publicado em: 15/03/2023'')]),
                             (''accessory'',
                                PDict [(''type'', PStr ''button''),
                                       (''text'',
                                          PDict [(''type'', PStr ''plain_text''),
                                                 (''text'', PStr (''Acessar publica''
                                                    @ [CHR 0xC3, CHR 0xA7, CHR 0xC3, CHR 0xA3]
                                                    @ ''o'')),
                                                 (''emoji'', PBool True)]),
                                       (''value'', PStr ''click_me_123''),
                                       (''url'', PStr (href m)),
                                       (''action_id'', PStr ''button-action'')])],
                      PDict [(''type'', PStr ''divider'')]]) matches)) results))
        search_report)
    in blocks (sender (SlackSender_send ext s search_report)) = blocks s @ rendered
     \<and> posted (SlackSender_send ext (SlackSender_init sp) search_report) =
         [(slack_webhook sp, [(''blocks'', PList rendered)])])"
  unfolding Let_def
  by (simp only: match_blocks_literal [symmetric] term_blocks_literal [symmetric]
        group_blocks_literal [symmetric])
     (simp add: SlackSender_send_def flush_def fold_send_group SlackSender_init_def Let_def
        chat_blocks_def)

text \<open>
  The example of the specification: two terms under \<^verbatim>\<open>single_group\<close>, one match each, give
  no group header and per term one header, three content blocks and one divider.
\<close>

lemma chat_blocks_two_terms:
  "chat_blocks [(''single_group'', [(''lgpd'', [sample_match ''1'']),
                                    (''dados abertos'', [sample_match ''2''])])] =
     [header_block ''Termo: lgpd'',
      section_block ''Portaria 1'', section_block ''Resumo 1'',
      published_block ''https://www.in.gov.br/1'', divider_block,
      header_block ''Termo: dados abertos'',
      section_block ''Portaria 2'', section_block ''Resumo 2'',
      published_block ''https://www.in.gov.br/2'', divider_block]"
  by (simp add: slack_run_defs)

text \<open>
  Two calls of \<^verbatim>\<open>send\<close> on one sender: \<^verbatim>\<open>_flush\<close> leaves \<^verbatim>\<open>self.blocks\<close> as it is, so the
  second payload starts with the blocks of the first report.
\<close>

lemma second_send_posts_both:
  "posted (SlackSender_send ext (sender (SlackSender_send ext (SlackSender_init sp) r1)) r2) =
     [(slack_webhook sp, [(''blocks'', PList (chat_blocks r1 @ chat_blocks r2))])]"
  by (simp add: SlackSender_send_def flush_def fold_send_group SlackSender_init_def Let_def)

text \<open>
  C9 says that every call of \<^verbatim>\<open>send\<close> posts one payload whose blocks come from the report
  of that call alone, also for a second call on the same sender. The run below is such a
  second call: one payload is posted, and it holds the five blocks of the first report
  before the five of the second, which are all that the report of the call gives.
\<close>

theorem C9_second_send_repeats_first_report:
  "posted (SlackSender_send sample_externals
            (sender (SlackSender_send sample_externals (SlackSender_init sample_specs)
                       first_report))
            second_report) =
     [(''https://hooks.example/T0'',
       [(''blocks'',
         PList [header_block ''Termo: lgpd'',
                section_block ''Portaria 1'', section_block ''Resumo 1'',
                published_block ''https://www.in.gov.br/1'', divider_block,
                header_block ''Termo: dados abertos'',
                section_block ''Portaria 2'', section_block ''Resumo 2'',
                published_block ''https://www.in.gov.br/2'', divider_block])])]
   \<and> chat_blocks second_report =
        [header_block ''Termo: dados abertos'',
         section_block ''Portaria 2'', section_block ''Resumo 2'',
         published_block ''https://www.in.gov.br/2'', divider_block]"
  by (simp add: slack_run_defs first_report_def second_report_def)

subsection \<open>EmailSender.convert\_report\_to\_dataframe\<close>

lemma fold_del_flags:
  "fold del_flags_step report (dh, dsg) =
     (dh \<and> list_all (\<lambda>b. header b = None) report,
      dsg \<or> list_ex (\<lambda>b. ''single_group'' \<in> set (map fst (result b))) report)"
  by (induction report arbitrary: dh dsg) (auto simp: del_flags_step_def)

lemma length_csv_columns: "length csv_columns = 8"
  by (simp add: csv_columns_def)

lemma set_columns_csv:
  "set_columns (DataFrame tups) csv_columns =
     (if tups = [] then Inl (ValueError ''Length mismatch'')
      else if length (hd tups) = 8 then Inr \<lparr>columns = csv_columns, rows = tups\<rparr>
      else Inl (ValueError ''Length mismatch''))"
  by (cases tups) (auto simp: set_columns_def DataFrame_def length_csv_columns)

lemma tuples_acc:
  "fold (\<lambda>m acc. acc @ [f m]) ms acc = acc @ map f ms"
  by (induction ms arbitrary: acc) simp_all

lemma fold_terms_acc:
  "fold (\<lambda>(term, matches). fold (\<lambda>m acc. acc @ [f term m]) matches) results acc =
     acc @ concat (map (\<lambda>(term, matches). map (f term) matches) results)"
  by (induction results arbitrary: acc) (auto simp: tuples_acc)

lemma fold_groups_acc:
  "fold (\<lambda>(grp, results). fold (\<lambda>(term, matches). fold (\<lambda>m acc. acc @ [f grp term m]) matches) results) gs acc =
     acc @ concat (map (\<lambda>(grp, results). concat (map (\<lambda>(term, matches). map (f grp term) matches) results)) gs)"
  by (induction gs arbitrary: acc) (auto simp: fold_terms_acc)

lemma tuples_of_search_acc:
  "tuples_of_search srch acc = acc @ tuples_of_search srch []"
  by (simp add: tuples_of_search_def Let_def fold_groups_acc)

lemma tuples_of_search_len:
  "r \<in> set (tuples_of_search srch []) \<Longrightarrow> length r = 8"
  by (auto simp: tuples_of_search_def Let_def fold_groups_acc repack_match_def)

lemma fold_tuples_of_search:
  "fold tuples_of_search report acc = acc @ concat (map (\<lambda>s. tuples_of_search s []) report)"
proof (induction report arbitrary: acc)
  case Nil
  then show ?case by simp
next
  case (Cons s report)
  show ?case
    by (simp add: Cons.IH tuples_of_search_acc [of s acc])
qed

lemma tuple_list_rows:
  "r \<in> set (convert_report_dict_to_tuple_list report) \<Longrightarrow> length r = 8"
  by (auto simp: convert_report_dict_to_tuple_list_def fold_tuples_of_search tuples_of_search_len)

lemma tuple_list_hd:
  "convert_report_dict_to_tuple_list report \<noteq> [] \<Longrightarrow>
   length (hd (convert_report_dict_to_tuple_list report)) = 8"
  using tuple_list_rows [of "hd (convert_report_dict_to_tuple_list report)" report]
  by simp

lemma del_column_present:
  "n \<in> set (columns df) \<Longrightarrow>
   del_column n df =
     Inr \<lparr>columns = filter (\<lambda>c. c \<noteq> n) (columns df),
          rows = map (\<lambda>r. map snd (filter (\<lambda>(c, x). c \<noteq> n) (zip (columns df) r))) (rows df)\<rparr>"
  by (simp add: del_column_def)

lemma Consulta_in_csv: "''Consulta'' \<in> set csv_columns"
  by (simp add: csv_columns_def)

lemma Grupo_in_csv: "''Grupo'' \<in> set csv_columns"
  by (simp add: csv_columns_def)

lemma convert_empty:
  "convert_report_dict_to_tuple_list report = [] \<Longrightarrow>
   convert_report_to_dataframe report = Inl (ValueError ''Length mismatch'')"
  by (simp add: convert_report_to_dataframe_def set_columns_csv)

lemma convert_nonempty:
  assumes "convert_report_dict_to_tuple_list report \<noteq> []"
  shows "\<exists>rs. convert_report_to_dataframe report =
     Inr \<lparr>columns = filter (\<lambda>c. \<not> (c = ''Consulta'' \<and> del_header_of report)
                               \<and> \<not> (c = ''Grupo'' \<and> del_single_group_of report)) csv_columns,
          rows = rs\<rparr>"
proof -
  let ?df = "\<lparr>columns = csv_columns, rows = convert_report_dict_to_tuple_list report\<rparr>"
  have start: "set_columns (DataFrame (convert_report_dict_to_tuple_list report)) csv_columns
                 = Inr ?df"
    using assms by (simp add: set_columns_csv tuple_list_hd)
  have flags: "fold del_flags_step report (True, False) =
                 (del_header_of report, del_single_group_of report)"
    by (simp add: fold_del_flags del_header_of_def del_single_group_of_def)
  have conv: "convert_report_to_dataframe report =
      and_then (if del_header_of report then del_column ''Consulta'' ?df else Inr ?df)
        (\<lambda>df1. if del_single_group_of report then del_column ''Grupo'' df1 else Inr df1)"
    by (simp add: convert_report_to_dataframe_def start flags)
  show ?thesis
  proof (cases "del_header_of report")
    case True
    note dh = this
    show ?thesis
    proof (cases "del_single_group_of report")
      case True
      with dh show ?thesis
        by (simp add: conv del_column_present Consulta_in_csv Grupo_in_csv)
    next
      case False
      with dh show ?thesis
        by (simp add: conv del_column_present Consulta_in_csv)
    qed
  next
    case False
    note dh = this
    show ?thesis
    proof (cases "del_single_group_of report")
      case True
      with dh show ?thesis
        by (simp add: conv del_column_present Grupo_in_csv)
    next
      case False
      with dh show ?thesis
        by (simp add: conv)
    qed
  qed
qed

lemma columns_of_dataframe:
  assumes "convert_report_to_dataframe report = Inr df"
  shows "columns df =
     filter (\<lambda>c. \<not> (c = ''Consulta'' \<and> del_header_of report)
                \<and> \<not> (c = ''Grupo'' \<and> del_single_group_of report)) csv_columns"
proof (cases "convert_report_dict_to_tuple_list report = []")
  case True
  with assms show ?thesis by (simp add: convert_empty)
next
  case False
  from convert_nonempty [OF False] assms show ?thesis by auto
qed

text \<open>
  An export exists exactly for the reports with at least one match: on an empty list of
  tuples the data frame has no column, and naming eight raises.
\<close>

lemma export_exists:
  "(\<exists>df. convert_report_to_dataframe report = Inr df) \<longleftrightarrow>
   convert_report_dict_to_tuple_list report \<noteq> []"
  using convert_nonempty [of report] convert_empty [of report] by auto

lemma two_block_export: "convert_report_to_dataframe two_block_report = Inr two_block_frame"
  by (simp add: convert_report_to_dataframe_def convert_report_dict_to_tuple_list_def
      tuples_of_search_def repack_match_def DataFrame_def set_columns_def del_flags_step_def
      del_column_def csv_columns_def two_block_report_def two_block_frame_def sample_match_def
      c_cedilla_def a_tilde_def i_acute_def)

text \<open>
  C5: in the table that \<^verbatim>\<open>convert_report_to_dataframe\<close> returns, the column \<^verbatim>\<open>Consulta\<close> (the
  search label) is missing if and only if no block of the report has a header, and the
  column \<^verbatim>\<open>Grupo\<close> is missing if and only if the result of at least one block has the key
  \<^verbatim>\<open>single_group\<close>.
\<close>

theorem C5_dropped_columns:
  assumes "convert_report_to_dataframe report = Inr df"
  shows "(''Consulta'' \<notin> set (columns df) \<longleftrightarrow> list_all (\<lambda>b. header b = None) report) \<and>
         (''Grupo'' \<notin> set (columns df) \<longleftrightarrow>
            list_ex (\<lambda>b. ''single_group'' \<in> set (map fst (result b))) report)"
  unfolding columns_of_dataframe [OF assms]
  by (auto simp: csv_columns_def del_header_of_def del_single_group_of_def)

theorem C5_dropped_columns_witness:
  "convert_report_to_dataframe two_block_report = Inr two_block_frame \<and>
   ''Consulta'' \<in> set (columns two_block_frame) \<and> ''Grupo'' \<notin> set (columns two_block_frame) \<and>
   \<not> list_all (\<lambda>b. header b = None) two_block_report \<and>
   list_ex (\<lambda>b. ''single_group'' \<in> set (map fst (result b))) two_block_report"
  using C5_dropped_columns [OF two_block_export] two_block_export
  by (simp add: two_block_report_def)


subsection \<open>YAMLParser: required fields\<close>

lemma try_get_dict:
  "try_get fp (PDict kvs) field None =
     (case map_of kvs field of
        Some v \<Rightarrow> Inr v
      | None \<Rightarrow> Inl (ValueError (''Erro no arquivo '' @ file_name fp @ '': '' @ mandatory_msg field)))"
  by (simp add: try_get_def split: option.splits)

text \<open>The message of \<^verbatim>\<open>_try_get\<close> holds the file name and the field name.\<close>

lemma try_get_message:
  assumes "try_get fp v field None = Inl (ValueError m)"
  shows "sublist (file_name fp) m \<and> sublist field m"
proof -
  from assms have m: "m = ''Erro no arquivo '' @ file_name fp @ '': '' @ mandatory_msg field"
    by (cases v) (auto simp: try_get_def split: option.splits)
  have "sublist (file_name fp) (''Erro no arquivo '' @ file_name fp @ ('': '' @ mandatory_msg field))"
    by (rule sublist_appendI)
  moreover have "sublist field ((''Erro no arquivo '' @ file_name fp @ '': '' @ ''O campo `'') @ field
          @ (''` '' @ e_acute @ '' obrigat'' @ o_acute @ ''rio.''))"
    by (rule sublist_appendI)
  ultimately show ?thesis
    by (simp add: m mandatory_msg_def)
qed

lemmas parser_run_defs =
  parse_def parse_yaml_def try_get_def proc_subsearch_def get_terms_params_def file_name_def
  sample_externals_def sample_Variable_get_def sample_literal_eval_def splitlines_def

text \<open>
  C6: for every document whose \<^verbatim>\<open>dag\<close> mapping has no key \<^verbatim>\<open>id\<close>, \<^verbatim>\<open>parse\<close> raises the
  ValueError whose message is \<^verbatim>\<open>Erro no arquivo\<close>, the file name (the last component of the
  path), a colon, and the sentence saying that the field \<^verbatim>\<open>id\<close> is mandatory (its two
  accented letters in UTF-8); no configuration is returned.
\<close>

theorem C6_missing_dag_id:
  assumes "map_of doc ''dag'' = Some (PDict dag)" and "map_of dag ''id'' = None"
  shows "parse ext fp (PDict doc) =
           Inl (ValueError (''Erro no arquivo '' @ file_name fp @ '': O campo `id` '' @ e_acute
                  @ '' obrigat'' @ o_acute @ ''rio.''))"
  using assms by (simp add: parse_def parse_yaml_def try_get_dict mandatory_msg_def)

theorem C6_missing_dag_id_witness:
  "map_of [(''dag'', PDict [(''description'', PStr ''Teste'')])] ''dag''
     = Some (PDict [(''description'', PStr ''Teste'')])
   \<and> map_of [(''description'', PStr ''Teste'')] ''id'' = None
   \<and> parse sample_externals ''dags/ro_dou/teste.yaml''
       (PDict [(''dag'', PDict [(''description'', PStr ''Teste'')])]) =
     Inl (ValueError (''Erro no arquivo teste.yaml: O campo `id` '' @ e_acute
            @ '' obrigat'' @ o_acute @ ''rio.''))"
  using C6_missing_dag_id [of "[(''dag'', PDict [(''description'', PStr ''Teste'')])]"
      "[(''description'', PStr ''Teste'')]" sample_externals "''dags/ro_dou/teste.yaml''"]
  by (simp add: file_name_def)

subsection \<open>YAMLParser: the messages of its ValueErrors\<close>

text \<open>
  When reading the Airflow variable raises no ValueError of its own, every ValueError of
  \<^verbatim>\<open>parse\<close> has one of two messages: the fixed text about \<^verbatim>\<open>terms\<close>, or the message of
  \<^verbatim>\<open>_try_get\<close> with the file name and the field.
\<close>

lemma raises_only_Inr [simp]: "raises_only fp (Inr x)"
  by (simp add: raises_only_def)

lemma raises_only_and_then:
  "raises_only fp r \<Longrightarrow> (\<And>x. raises_only fp (f x)) \<Longrightarrow> raises_only fp (and_then r f)"
  by (cases r) (auto simp: raises_only_def)

lemma raises_only_py_get [simp]: "raises_only fp (py_get v k d)"
  by (cases v) (simp_all add: raises_only_def)

lemma raises_only_py_subscript [simp]: "raises_only fp (py_subscript v k)"
  by (cases v) (simp_all add: raises_only_def split: option.splits)

lemma raises_only_as_str [simp]: "raises_only fp (as_str v)"
  by (cases v) (simp_all add: raises_only_def)

lemma raises_only_all_str [simp]: "raises_only fp (all_str vs)"
  by (induction vs) (simp_all add: raises_only_and_then)

lemma raises_only_py_join [simp]: "raises_only fp (py_join sep v)"
  by (cases v) (simp_all add: raises_only_and_then, simp_all add: raises_only_def)

lemma raises_only_py_append [simp]: "raises_only fp (py_append v x)"
  by (cases v) (simp_all add: raises_only_def)

lemma raises_only_py_set [simp]: "raises_only fp (py_set v)"
  by (cases v) (simp_all add: raises_only_def)

lemma raises_only_webhook_of [simp]: "raises_only fp (webhook_of report key)"
  by (simp add: webhook_of_def raises_only_and_then)

lemma raises_only_try_get [simp]: "raises_only fp (try_get fp v field None)"
  by (cases v) (auto simp: try_get_def raises_only_def config_error_shape_def split: option.splits)

lemma raises_only_get_terms_params:
  assumes "\<And>name m. Variable_get ext name \<noteq> Inl (ValueError m)"
  shows "raises_only fp (get_terms_params ext fp blk)"
proof -
  have var: "raises_only fp (Variable_get ext name)" for name
    using assms by (simp add: raises_only_def)
  have lit: "raises_only fp
      (case literal_eval ext s of
         Inr v \<Rightarrow> Inr (v, PNone, PNone)
       | Inl (ValueError m) \<Rightarrow> Inr (PList (map PStr (splitlines s)), PNone, PNone)
       | Inl SyntaxError \<Rightarrow> Inr (PList (map PStr (splitlines s)), PNone, PNone)
       | Inl e \<Rightarrow> Inl e)" for s
    by (simp add: raises_only_def split: sum.splits py_error.splits)
  show ?thesis
    unfolding get_terms_params_def
  proof (rule raises_only_and_then)
    show "raises_only fp (try_get fp blk ''terms'' None)"
      by simp
  next
    fix terms
    show "raises_only fp
      (case terms of
         PDict d \<Rightarrow>
           (case map_of d ''from_airflow_variable'' of
              Some name \<Rightarrow>
                and_then (Variable_get ext name) (\<lambda>var_value.
                  case literal_eval ext var_value of
                    Inr v \<Rightarrow> Inr (v, PNone, PNone)
                  | Inl (ValueError m) \<Rightarrow>
                      Inr (PList (map PStr (splitlines var_value)), PNone, PNone)
                  | Inl SyntaxError \<Rightarrow>
                      Inr (PList (map PStr (splitlines var_value)), PNone, PNone)
                  | Inl e \<Rightarrow> Inl e)
            | None \<Rightarrow>
                (case map_of d ''from_db_select'' of
                   Some from_db_select \<Rightarrow>
                     and_then (try_get fp from_db_select ''sql'' None) (\<lambda>sql.
                     and_then (try_get fp from_db_select ''conn_id'' None) (\<lambda>conn_id.
                       Inr (PList [], sql, conn_id)))
                 | None \<Rightarrow> Inl (ValueError invalid_terms_msg)))
       | _ \<Rightarrow> Inr (terms, PNone, PNone))"
    proof (cases terms)
      case (PDict d)
      show ?thesis
      proof (cases "map_of d ''from_airflow_variable''")
        case None
        show ?thesis
        proof (cases "map_of d ''from_db_select''")
          case None
          with \<open>map_of d ''from_airflow_variable'' = None\<close> PDict show ?thesis
            by (simp add: raises_only_def config_error_shape_def)
        next
          case (Some sel)
          with \<open>map_of d ''from_airflow_variable'' = None\<close> PDict show ?thesis
            by (simp add: raises_only_and_then)
        qed
      next
        case (Some name)
        with PDict show ?thesis
          by (simp add: raises_only_and_then var lit)
      qed
    qed simp_all
  qed
qed

lemma raises_only_proc_subsearch:
  assumes "\<And>name m. Variable_get ext name \<noteq> Inl (ValueError m)"
  shows "raises_only fp (proc_subsearch ext fp subsearch)"
proof -
  have rest: "raises_only fp (case t of (terms, sql, conn_id) \<Rightarrow> and_then (py_get v k d) (g terms sql conn_id))"
    if "\<And>terms sql conn_id x. raises_only fp (g terms sql conn_id x)" for t v k d
      and g :: "pyval \<Rightarrow> pyval \<Rightarrow> pyval \<Rightarrow> pyval \<Rightarrow> py_error + (string \<times> pyval) list"
    using that by (cases t) (simp add: raises_only_and_then)
  show ?thesis
    unfolding proc_subsearch_def
    by (intro raises_only_and_then raises_only_py_get raises_only_get_terms_params assms rest
        raises_only_Inr)
qed

lemma raises_only_proc_search_loop:
  assumes "\<And>name m. Variable_get ext name \<noteq> Inl (ValueError m)"
  shows "raises_only fp (proc_search_loop ext fp subs acc)"
  by (induction subs arbitrary: acc)
    (simp_all add: raises_only_and_then raises_only_proc_subsearch assms)

lemma raises_only_parse_yaml:
  assumes "\<And>name m. Variable_get ext name \<noteq> Inl (ValueError m)"
  shows "raises_only fp (parse_yaml ext fp doc)"
  unfolding parse_yaml_def
  by (intro raises_only_and_then raises_only_try_get raises_only_py_get raises_only_py_join
      raises_only_webhook_of raises_only_py_append raises_only_py_set
      raises_only_proc_search_loop assms raises_only_Inr)
    (simp_all add: raises_only_and_then)

lemma parse_value_errors:
  assumes "\<And>name m. Variable_get ext name \<noteq> Inl (ValueError m)"
    and "parse ext fp doc = Inl (ValueError m)"
  shows "m = invalid_terms_msg
     \<or> (\<exists>field. m = ''Erro no arquivo '' @ file_name fp @ '': '' @ mandatory_msg field)"
  using raises_only_parse_yaml [OF assms(1), of fp doc] assms(2)
  by (simp add: parse_def raises_only_def config_error_shape_def)

text \<open>
  C3 says that every configuration error of \<^verbatim>\<open>parse\<close>, for a missing field or for a wrong
  shape of \<^verbatim>\<open>terms\<close>, names the file and the field. The run below is a document with
  \<^verbatim>\<open>terms: {from_variable: X}\<close> in the file \<^verbatim>\<open>teste.yaml\<close>: the error is raised directly, not
  through \<^verbatim>\<open>_try_get\<close>, and its message holds no file name.
\<close>

theorem C3_terms_error_without_file_name:
  "parse sample_externals ''dags/ro_dou/teste.yaml'' bad_terms_doc
     = Inl (ValueError invalid_terms_msg)
   \<and> file_name ''dags/ro_dou/teste.yaml'' = ''teste.yaml''
   \<and> \<not> sublist ''teste.yaml'' invalid_terms_msg"
  by (simp add: parse_def parse_yaml_def try_get_def proc_subsearch_def get_terms_params_def
      bad_terms_doc_def file_name_def invalid_terms_msg_def a_acute_def sublist_Cons_right)

subsection \<open>YAMLParser.\_get\_terms\_params\<close>

text \<open>
  For a variable whose text is a literal list, the resolved terms are that list; for one
  whose text makes \<^verbatim>\<open>ast.literal_eval\<close> raise a syntax or value error, they are the lines
  of the text. These are the two cases that the annotation of the method,
  \<^verbatim>\<open>Tuple[List[str], str, str]\<close>, allows for.
\<close>

lemma terms_from_variable:
  assumes "map_of blk ''terms'' = Some (PDict d)"
    and "map_of d ''from_airflow_variable'' = Some name"
    and "Variable_get ext name = Inr var_value"
  shows "(literal_eval ext var_value = Inr (PList vs) \<longrightarrow>
            get_terms_params ext fp (PDict blk) = Inr (PList vs, PNone, PNone))
       \<and> (literal_eval ext var_value = Inl SyntaxError \<or>
          literal_eval ext var_value = Inl (ValueError m) \<longrightarrow>
            get_terms_params ext fp (PDict blk) =
              Inr (PList (map PStr (splitlines var_value)), PNone, PNone))"
  using assms by (auto simp: get_terms_params_def try_get_dict)

text \<open>The two examples of the specification: a literal list, and two lines.\<close>

lemma terms_from_variable_examples:
  \<open>Variable_get sample_externals (PStr ''X'') = Inr ''["a","b"]''
   \<and> get_terms_params sample_externals ''dags/teste.yaml'' (PDict (variable_block ''X''))
       = Inr (PList [PStr ''a'', PStr ''b''], PNone, PNone)
   \<and> Variable_get sample_externals (PStr ''Y'') = Inr ''a\<newline>b''
   \<and> get_terms_params sample_externals ''dags/teste.yaml'' (PDict (variable_block ''Y''))
       = Inr (PList [PStr ''a'', PStr ''b''], PNone, PNone)\<close>
  by (simp add: parser_run_defs variable_block_def)

text \<open>
  C2 says that the value of the variable named under \<^verbatim>\<open>from_airflow_variable\<close> resolves to
  the list it denotes when it parses as a literal list, and to its lines otherwise. The
  run below is the variable \<^verbatim>\<open>N\<close> whose text is \<^verbatim>\<open>42\<close>, one line that is a literal but no
  list: the terms returned are the number 42, where the lines of the text are the list of
  the one string \<^verbatim>\<open>42\<close>.
\<close>

theorem C2_literal_that_is_no_list:
  "get_terms_params sample_externals ''dags/teste.yaml'' (PDict (variable_block ''N''))
     = Inr (PInt 42, PNone, PNone)
   \<and> sample_Variable_get (PStr ''N'') = Inr ''42''
   \<and> sample_literal_eval ''42'' = Inr (PInt 42)
   \<and> splitlines ''42'' = [''42'']"
  by (simp add: parser_run_defs variable_block_def)

text \<open>
  C7, as the specification has it: a \<^verbatim>\<open>terms\<close> mapping with the key \<^verbatim>\<open>from_db_select\<close>
  resolves to the empty list with the mapping's \<^verbatim>\<open>sql\<close> and \<^verbatim>\<open>conn_id\<close>, or raises the
  configuration error when one of the two is missing. In the first run \<^verbatim>\<open>terms\<close> has the
  key \<^verbatim>\<open>from_airflow_variable\<close> as well: the variable is resolved and \<^verbatim>\<open>sql\<close>, \<^verbatim>\<open>conn_id\<close> are
  \<^verbatim>\<open>None\<close>. In the second the value under \<^verbatim>\<open>from_db_select\<close> is a string: the error is a
  TypeError.
\<close>

theorem C7_other_key_or_no_mapping:
  "get_terms_params sample_externals ''dags/teste.yaml'' (PDict both_keys_block)
     = Inr (PList [PStr ''a'', PStr ''b''], PNone, PNone)
   \<and> map_of select_params ''sql'' = Some (PStr ''SELECT termo FROM t'')
   \<and> map_of select_params ''conn_id'' = Some (PStr ''c'')
   \<and> get_terms_params sample_externals ''dags/teste.yaml'' (PDict select_string_block)
     = Inl TypeError"
  by (simp add: parser_run_defs both_keys_block_def select_string_block_def select_params_def)

text \<open>
  C7, amended: for every search block whose \<^verbatim>\<open>terms\<close> is a mapping without the key
  \<^verbatim>\<open>from_airflow_variable\<close> and with a mapping under the key \<^verbatim>\<open>from_db_select\<close>, resolution
  returns the empty list of terms with that mapping's \<^verbatim>\<open>sql\<close> and \<^verbatim>\<open>conn_id\<close>; when \<^verbatim>\<open>sql\<close> is
  missing it raises the error of \<^verbatim>\<open>_try_get\<close> for \<^verbatim>\<open>sql\<close>, and when only \<^verbatim>\<open>conn_id\<close> is missing,
  the one for \<^verbatim>\<open>conn_id\<close>.
\<close>

theorem C7_terms_from_db_select:
  assumes "map_of blk ''terms'' = Some (PDict d)"
    and "map_of d ''from_airflow_variable'' = None"
    and "map_of d ''from_db_select'' = Some (PDict sel)"
  shows "get_terms_params ext fp (PDict blk) =
           (case map_of sel ''sql'' of
              None \<Rightarrow> Inl (ValueError (''Erro no arquivo '' @ file_name fp @ '': ''
                              @ mandatory_msg ''sql''))
            | Some sql \<Rightarrow>
                (case map_of sel ''conn_id'' of
                   None \<Rightarrow> Inl (ValueError (''Erro no arquivo '' @ file_name fp @ '': ''
                                   @ mandatory_msg ''conn_id''))
                 | Some conn_id \<Rightarrow> Inr (PList [], sql, conn_id)))"
  using assms by (simp add: get_terms_params_def try_get_dict split: option.splits)

theorem C7_terms_from_db_select_witness:
  "map_of select_block ''terms'' = Some (PDict [(''from_db_select'', PDict select_params)])
   \<and> map_of [(''from_db_select'', PDict select_params)] ''from_airflow_variable'' = None
   \<and> map_of [(''from_db_select'', PDict select_params)] ''from_db_select''
       = Some (PDict select_params)
   \<and> get_terms_params sample_externals ''dags/teste.yaml'' (PDict select_block)
       = Inr (PList [], PStr ''SELECT termo FROM t'', PStr ''c'')
   \<and> get_terms_params sample_externals ''dags/teste.yaml''
         (PDict [(''terms'', PDict [(''from_db_select'', PDict [(''sql'', PStr ''SELECT 1'')])])])
       = Inl (ValueError (''Erro no arquivo teste.yaml: '' @ mandatory_msg ''conn_id''))"
  using
    C7_terms_from_db_select [where blk = select_block
      and d = "[(''from_db_select'', PDict select_params)]" and sel = select_params
      and ext = sample_externals and fp = "''dags/teste.yaml''"]
    C7_terms_from_db_select [where
          blk = "[(''terms'', PDict [(''from_db_select'', PDict [(''sql'', PStr ''SELECT 1'')])])]"
      and d = "[(''from_db_select'', PDict [(''sql'', PStr ''SELECT 1'')])]"
      and sel = "[(''sql'', PStr ''SELECT 1'')]"
      and ext = sample_externals and fp = "''dags/teste.yaml''"]
  by (simp add: select_block_def select_params_def file_name_def)

end
